theory Spec2Isabelle
  imports Complex_Main
begin

section \<open>Errors, tensors and arrays\<close>

text \<open>
  Every Python exception the modelled code can raise is a constructor of \<open>error\<close>.
  The constructor \<open>NonFinite\<close> is not an exception: it marks the points where the program
  would go on with a floating-point NaN, which the real numbers used here cannot hold.
\<close>

datatype error =
    AssertionError | ValueError | RuntimeError | KeyError | IndexError
  | ZeroDivisionError | NameError | TypeError | NonFinite

text \<open>
  The repository works on two-dimensional batches only (samples by features), so a tensor
  (and a NumPy array) is a list of rows with its column count; its shape is the pair
  (number of rows, number of columns).
\<close>

record tensor =
  ncols :: nat
  rws :: "real list list"

type_synonym ndarray = tensor

definition shape :: "tensor \<Rightarrow> nat \<times> nat" where
  "shape t = (length (rws t), ncols t)"

definition wf_tensor :: "tensor \<Rightarrow> bool" where
  "wf_tensor t = list_all (\<lambda>r. length r = ncols t) (rws t)"

definition elems :: "tensor \<Rightarrow> real list" where
  "elems t = concat (rws t)"

definition column_of :: "tensor \<Rightarrow> nat \<Rightarrow> real list" where
  \<comment> \<open>\<open>t[:, c]\<close> for \<open>c < ncols t\<close>\<close>
  "column_of t c = map (\<lambda>r. r ! c) (rws t)"

definition zip_with :: "(real \<Rightarrow> real \<Rightarrow> real) \<Rightarrow> tensor \<Rightarrow> tensor \<Rightarrow> tensor" where
  \<comment> \<open>an elementwise operation on two tensors of one shape\<close>
  "zip_with f a b = \<lparr>ncols = ncols a, rws = map2 (map2 f) (rws a) (rws b)\<rparr>"

definition tmap :: "(real \<Rightarrow> real) \<Rightarrow> tensor \<Rightarrow> tensor" where
  "tmap f a = \<lparr>ncols = ncols a, rws = map (map f) (rws a)\<rparr>"

text \<open>
  The value of a loss function: a scalar tensor, the scalar NaN that \<open>mean()\<close> gives on a
  tensor without elements, or a whole tensor (no reduction).
\<close>

datatype loss_value = Scalar real | NaN | Elementwise tensor

definition tensor_sum :: "tensor \<Rightarrow> real" where
  "tensor_sum t = sum_list (elems t)"

definition tensor_mean :: "tensor \<Rightarrow> loss_value" where
  "tensor_mean t =
     (if elems t = [] then NaN else Scalar (sum_list (elems t) / real (length (elems t))))"

section \<open>Hand-written loss functions (utilities.py)\<close>

subsection \<open>calculate_weighted_mse\<close>

definition squared_error :: "tensor \<Rightarrow> tensor \<Rightarrow> tensor" where
  "squared_error input target = zip_with (\<lambda>x y. (x - y)\<^sup>2) input target"

definition calculate_weighted_mse_forward ::
  "string \<Rightarrow> tensor \<Rightarrow> tensor \<Rightarrow> error + loss_value" where
  "calculate_weighted_mse_forward reduction input target =
     (if shape input \<noteq> shape target then Inl ValueError
      else let squared_error = squared_error input target in
        if reduction = ''mean'' then Inr (tensor_mean squared_error)
        else if reduction = ''sum'' then Inr (Scalar (tensor_sum squared_error))
        else Inr (Elementwise squared_error))"

subsection \<open>calculate_huber_loss\<close>

definition huber_squared_branch :: "real \<Rightarrow> real" where
  "huber_squared_branch err = 0.5 * err\<^sup>2"

definition huber_linear_branch :: "real \<Rightarrow> real \<Rightarrow> real" where
  "huber_linear_branch delta err = delta * (err - 0.5 * delta)"

definition huber_where :: "real \<Rightarrow> real \<Rightarrow> real" where
  \<comment> \<open>one element of \<open>torch.where(error <= delta, ..., ...)\<close>\<close>
  "huber_where delta err =
     (if err \<le> delta then huber_squared_branch err else huber_linear_branch delta err)"

text \<open>
  \<open>y_true - y_pred\<close> has no shape check of its own: the tensor library broadcasts. For two
  dimensions, a dimension of size 1 is stretched to the other operand's size, and any
  other disagreement is the library's RuntimeError.
\<close>

definition broadcast_dim :: "nat \<Rightarrow> nat \<Rightarrow> nat option" where
  "broadcast_dim a b =
     (if a = b then Some a else if a = 1 then Some b else if b = 1 then Some a else None)"

definition expand :: "tensor \<Rightarrow> nat \<Rightarrow> nat \<Rightarrow> tensor" where
  "expand t r c =
     \<lparr>ncols = c,
      rws = map (\<lambda>row. if ncols t = c then row else replicate c (row ! 0))
              (if length (rws t) = r then rws t else replicate r (rws t ! 0))\<rparr>"

definition torch_sub :: "tensor \<Rightarrow> tensor \<Rightarrow> error + tensor" where
  "torch_sub a b =
     (case (broadcast_dim (length (rws a)) (length (rws b)), broadcast_dim (ncols a) (ncols b)) of
        (Some r, Some c) \<Rightarrow> Inr (zip_with (\<lambda>x y. x - y) (expand a r c) (expand b r c))
      | _ \<Rightarrow> Inl RuntimeError)"

definition calculate_huber_loss_forward ::
  "real \<Rightarrow> tensor \<Rightarrow> tensor \<Rightarrow> error + loss_value" where
  "calculate_huber_loss_forward delta y_pred y_true =
     (case torch_sub y_true y_pred of
        Inl e \<Rightarrow> Inl e
      | Inr diff \<Rightarrow>
          let error = tmap abs diff;
              loss = tmap (huber_where delta) error
          in Inr (tensor_mean loss))"

section \<open>The unscale helper (utilities.py)\<close>

text \<open>
  Arrays are objects: \<open>data.copy()\<close> makes a new one and \<open>unscaled_data[:, i] = ...\<close>
  writes into it. The store holds every array at an address; the addresses below
  \<open>fresh\<close> are in use.
\<close>

record store =
  cells :: "nat \<Rightarrow> ndarray"
  fresh :: nat

definition copy :: "store \<Rightarrow> nat \<Rightarrow> nat \<times> store" where
  \<comment> \<open>\<open>data.copy()\<close>: a new array with the same contents\<close>
  "copy st a = (fresh st, st\<lparr>cells := (cells st)(fresh st := cells st a), fresh := Suc (fresh st)\<rparr>)"

definition set_column :: "ndarray \<Rightarrow> nat \<Rightarrow> real list \<Rightarrow> ndarray" where
  \<comment> \<open>\<open>arr[:, i] = vs\<close>, one value per row\<close>
  "set_column arr i vs = arr\<lparr>rws := map2 (\<lambda>r v. r[i := v]) (rws arr) vs\<rparr>"

definition write_column :: "store \<Rightarrow> nat \<Rightarrow> nat \<Rightarrow> real list \<Rightarrow> store" where
  "write_column st a i vs = st\<lparr>cells := (cells st)(a := set_column (cells st a) i vs)\<rparr>"

datatype message = OutOfBoundsWarning nat nat
  \<comment> \<open>"Warning: Index i is out of bounds for data with n columns."\<close>

type_synonym scaling_info = "string \<rightharpoonup> (string \<rightharpoonup> real)"

definition lookup :: "('k \<rightharpoonup> 'v) \<Rightarrow> 'k \<Rightarrow> error + 'v" where
  "lookup d k = (case d k of None \<Rightarrow> Inl KeyError | Some v \<Rightarrow> Inr v)"

text \<open>
  The loop over \<open>enumerate(column_names)\<close>: \<open>i\<close> is the running index, \<open>data\<close> the
  address of the input and \<open>out\<close> the address of the copy. It returns the exception
  raised (if any), the store and what was printed.
\<close>

fun unscale_loop ::
  "scaling_info \<Rightarrow> nat \<Rightarrow> nat \<Rightarrow> nat \<Rightarrow> nat \<Rightarrow> string list \<Rightarrow> store
     \<Rightarrow> error option \<times> store \<times> message list" where
  "unscale_loop info data out num_columns i [] st = (None, st, [])"
| "unscale_loop info data out num_columns i (column # rest) st =
     (if i \<ge> num_columns then (None, st, [OutOfBoundsWarning i num_columns])
      else case lookup info column of
        Inl e \<Rightarrow> (Some e, st, [])
      | Inr entry \<Rightarrow>
         (case lookup entry ''mean'' of
            Inl e \<Rightarrow> (Some e, st, [])
          | Inr mean \<Rightarrow>
             (case lookup entry ''std'' of
                Inl e \<Rightarrow> (Some e, st, [])
              | Inr std \<Rightarrow>
                  unscale_loop info data out num_columns (Suc i) rest
                    (write_column st out i
                       (map (\<lambda>x. x * std + mean) (column_of (cells st data) i))))))"

definition unscale ::
  "store \<Rightarrow> nat \<Rightarrow> string list \<Rightarrow> scaling_info \<Rightarrow> (error + nat) \<times> store \<times> message list" where
  "unscale st data column_names scaling_info =
     (let (unscaled_data, st1) = copy st data;
          num_columns = ncols (cells st data);
          (exc, st2, printed) =
            unscale_loop scaling_info data unscaled_data num_columns 0 column_names st1
      in ((case exc of Some e \<Rightarrow> Inl e | None \<Rightarrow> Inr unscaled_data), st2, printed))"

text \<open>The (mean, std) pair that the loop reads for a column name, when both lookups succeed.\<close>

definition metadata :: "scaling_info \<Rightarrow> string \<Rightarrow> (real \<times> real) option" where
  "metadata info name =
     (case info name of
        None \<Rightarrow> None
      | Some entry \<Rightarrow>
         (case entry ''mean'' of
            None \<Rightarrow> None
          | Some mean \<Rightarrow> (case entry ''std'' of None \<Rightarrow> None | Some std \<Rightarrow> Some (mean, std))))"

section \<open>The training and validation loop (utilities.py)\<close>

subsection \<open>What the loop is given\<close>

text \<open>
  A data loader is iterated once per epoch; \<open>batches ld e\<close> are the (inputs, targets)
  pairs it yields in epoch \<open>e\<close> (a shuffling loader yields another order each time), and
  \<open>dataset_len ld\<close> is \<open>len(ld.dataset)\<close>.
\<close>

type_synonym batch = "tensor \<times> tensor"

record loader =
  batches :: "nat \<Rightarrow> batch list"
  dataset_len :: nat

type_synonym criterion = "tensor \<Rightarrow> tensor \<Rightarrow> error + loss_value"

text \<open>
  The numerical work is the libraries': the model's forward pass on its parameters
  \<open>'p\<close>, backpropagation and the optimizer's update (on the optimizer's state \<open>'o\<close>,
  which includes the learning rate a scheduler changes), and the two metric functions.
  They are parameters of the loop.
\<close>

record ('p, 'o) lib =
  forward :: "'p \<Rightarrow> tensor \<Rightarrow> error + tensor"
  backward_step :: "'o \<Rightarrow> 'p \<Rightarrow> tensor \<Rightarrow> tensor \<Rightarrow> 'o \<times> 'p"
  get_lr :: "'o \<Rightarrow> real"
  r2_score :: "real list \<Rightarrow> real list \<Rightarrow> error + real"
  mean_squared_error :: "real list \<Rightarrow> real list \<Rightarrow> error + real"

type_synonym 'o scheduler = "real \<Rightarrow> 'o \<Rightarrow> 'o"

text \<open>
  A model is an object: its parameters live in a store of parameter values, at the
  model's address, and \<open>optimizer.step()\<close> updates them in place.
  \<open>model.state_dict()\<close> returns a dictionary of tensors that share their storage with
  the parameters (references, not a copy), so the dictionary is the address itself;
  \<open>model.load_state_dict(sd)\<close> copies the values that \<open>sd\<close> holds at that moment into
  the parameters.
\<close>

type_synonym 'p pstore = "nat \<Rightarrow> 'p"

definition state_dict :: "nat \<Rightarrow> nat" where
  "state_dict model = model"

definition load_state_dict :: "'p pstore \<Rightarrow> nat \<Rightarrow> nat \<Rightarrow> 'p pstore" where
  "load_state_dict ps model sd = ps(model := ps sd)"

definition item :: "loss_value \<Rightarrow> error + real" where
  \<comment> \<open>\<open>loss.item()\<close>: defined on a tensor of one element\<close>
  "item l =
     (case l of
        Scalar v \<Rightarrow> Inr v
      | NaN \<Rightarrow> Inl NonFinite
      | Elementwise t \<Rightarrow> (case elems t of [v] \<Rightarrow> Inr v | _ \<Rightarrow> Inl RuntimeError))"

definition np_mean :: "real list \<Rightarrow> real option" where
  \<comment> \<open>\<open>np.mean\<close> of a list; \<open>None\<close> is the NaN it gives on an empty list\<close>
  "np_mean xs = (if xs = [] then None else Some (sum_list xs / real (length xs)))"

subsection \<open>The state of the loop\<close>

text \<open>What the loop prints: the progress report of an epoch and the early-stopping line.\<close>

record report =
  epoch_no :: nat
  of_epochs :: nat
  rep_train_loss :: real
  rep_val_loss :: real
  rep_lr :: real
  rep_r2 :: "real list"
  rep_mean_r2 :: "real option"
  rep_mse :: "real list"
  rep_mean_mse :: "real option"

datatype line = Report report | EarlyStopping nat

record ('p, 'o) tstate =
  pstore :: "'p pstore"
  optimizer :: 'o
  train_losses :: "real list"
  val_losses :: "real list"
  best_val_loss :: "real option"  \<comment> \<open>\<open>None\<close> is \<open>float("inf")\<close>\<close>
  early_counter :: int
  best_model_state :: "nat option"  \<comment> \<open>\<open>None\<close> is Python's \<open>None\<close>\<close>
  mse_values :: "real list"
  outputs :: "tensor option"  \<comment> \<open>\<open>None\<close>: the name is not bound yet\<close>
  printed :: "line list"

definition init_tstate :: "'p pstore \<Rightarrow> 'o \<Rightarrow> ('p, 'o) tstate" where
  "init_tstate ps opt =
     \<lparr>pstore = ps, optimizer = opt, train_losses = [], val_losses = [],
      best_val_loss = None, early_counter = 0, best_model_state = None,
      mse_values = [], outputs = None, printed = []\<rparr>"

subsection \<open>One epoch\<close>

text \<open>The loop over the training batches, with the running \<open>train_loss\<close>.\<close>

fun train_batches ::
  "('p, 'o) lib \<Rightarrow> criterion \<Rightarrow> nat \<Rightarrow> batch list \<Rightarrow> ('p, 'o) tstate \<Rightarrow> real
     \<Rightarrow> error + (('p, 'o) tstate \<times> real)" where
  "train_batches lb crit model [] s train_loss = Inr (s, train_loss)"
| "train_batches lb crit model ((inputs, targets) # rest) s train_loss =
     (case forward lb (pstore s model) inputs of
        Inl e \<Rightarrow> Inl e
      | Inr outs \<Rightarrow>
          if shape outs \<noteq> shape targets then Inl AssertionError
          else (case crit outs targets of
             Inl e \<Rightarrow> Inl e
           | Inr loss \<Rightarrow>
              (case item loss of
                 Inl e \<Rightarrow> Inl e
               | Inr l \<Rightarrow>
                   let train_loss = train_loss + l * real (length (rws inputs));
                       (opt, p) = backward_step lb (optimizer s) (pstore s model) inputs targets
                   in train_batches lb crit model rest
                        (s\<lparr>pstore := (pstore s)(model := p), optimizer := opt,
                           outputs := Some outs\<rparr>)
                        train_loss)))"

text \<open>The loop over the columns of one validation batch.\<close>

fun metric_columns ::
  "('p, 'o) lib \<Rightarrow> tensor \<Rightarrow> tensor \<Rightarrow> nat list \<Rightarrow> real list \<times> real list
     \<Rightarrow> error + (real list \<times> real list)" where
  "metric_columns lb outputsv targets [] acc = Inr acc"
| "metric_columns lb outputsv targets (col # cols) (r2_values, mse_vals) =
     (if col \<ge> ncols targets then Inl IndexError
      else let pred_col = column_of outputsv col;
               target_col = column_of targets col
        in (case r2_score lb target_col pred_col of
              Inl e \<Rightarrow> Inl e
            | Inr r2 \<Rightarrow>
               (case mean_squared_error lb target_col pred_col of
                  Inl e \<Rightarrow> Inl e
                | Inr mse \<Rightarrow>
                    metric_columns lb outputsv targets cols
                      (r2_values @ [r2], mse_vals @ [mse]))))"

text \<open>The loop over the validation batches; the parameters \<open>p\<close> are only read.\<close>

fun val_batches ::
  "('p, 'o) lib \<Rightarrow> criterion \<Rightarrow> 'p \<Rightarrow> batch list \<Rightarrow> real \<times> real list \<times> real list
     \<Rightarrow> error + (real \<times> real list \<times> real list)" where
  "val_batches lb crit p [] acc = Inr acc"
| "val_batches lb crit p ((inputs, targets) # rest) (val_loss, r2_values, mse_vals) =
     (case forward lb p inputs of
        Inl e \<Rightarrow> Inl e
      | Inr outputsv \<Rightarrow>
         (case crit outputsv targets of
            Inl e \<Rightarrow> Inl e
          | Inr lossv \<Rightarrow>
             (case item lossv of
                Inl e \<Rightarrow> Inl e
              | Inr l \<Rightarrow>
                 (case metric_columns lb outputsv targets [0..<ncols outputsv]
                         (r2_values, mse_vals) of
                    Inl e \<Rightarrow> Inl e
                  | Inr (r2_values', mse_vals') \<Rightarrow>
                      val_batches lb crit p rest
                        (val_loss + l * real (length (rws inputs)), r2_values', mse_vals')))))"

text \<open>
  The progress report, every tenth epoch and in the last one. Its column loops run over
  the columns of \<open>outputs\<close>, the output of the last training batch.
\<close>

definition print_metrics ::
  "nat \<Rightarrow> nat \<Rightarrow> real \<Rightarrow> real \<Rightarrow> real \<Rightarrow> real list \<Rightarrow> ('p, 'o) tstate
     \<Rightarrow> error + ('p, 'o) tstate" where
  "print_metrics epoch num_epochs train_loss val_loss current_lr r2_values s =
     (if epoch mod 10 = 0 \<or> int epoch = int num_epochs - 1 then
        (case outputs s of
           None \<Rightarrow> Inl NameError
         | Some outs \<Rightarrow>
             if ncols outs > length r2_values then Inl IndexError
             else if ncols outs > length (mse_values s) then Inl IndexError
             else Inr (s\<lparr>printed := printed s @
                    [Report \<lparr>epoch_no = epoch + 1, of_epochs = num_epochs,
                       rep_train_loss = train_loss, rep_val_loss = val_loss,
                       rep_lr = current_lr,
                       rep_r2 = take (ncols outs) r2_values,
                       rep_mean_r2 = np_mean r2_values,
                       rep_mse = take (ncols outs) (mse_values s),
                       rep_mean_mse = np_mean (mse_values s)\<rparr>]\<rparr>))
      else Inr s)"

text \<open>The early-stopping block; the flag says whether \<open>break\<close> was executed.\<close>

definition early_stopping ::
  "nat \<Rightarrow> int \<Rightarrow> nat \<Rightarrow> real \<Rightarrow> ('p, 'o) tstate \<Rightarrow> error + (bool \<times> ('p, 'o) tstate)" where
  "early_stopping model patience epoch val_loss s =
     (if (case best_val_loss s of None \<Rightarrow> True | Some b \<Rightarrow> val_loss < b) then
        Inr (False, s\<lparr>best_val_loss := Some val_loss, early_counter := 0,
                      best_model_state := Some (state_dict model)\<rparr>)
      else let s' = s\<lparr>early_counter := early_counter s + 1\<rparr> in
        if early_counter s' \<ge> patience then
          (case best_model_state s' of
             None \<Rightarrow> Inl TypeError
           | Some sd \<Rightarrow>
               Inr (True, s'\<lparr>printed := printed s' @ [EarlyStopping (epoch + 1)],
                            pstore := load_state_dict (pstore s') model sd\<rparr>))
        else Inr (False, s'))"

definition epoch_body ::
  "('p, 'o) lib \<Rightarrow> nat \<Rightarrow> loader \<Rightarrow> loader \<Rightarrow> criterion \<Rightarrow> nat \<Rightarrow> int \<Rightarrow> 'o scheduler option
     \<Rightarrow> nat \<Rightarrow> ('p, 'o) tstate \<Rightarrow> error + (bool \<times> ('p, 'o) tstate)" where
  "epoch_body lb model train_loader val_loader crit num_epochs patience sched epoch s =
     (case train_batches lb crit model (batches train_loader epoch) s 0 of
        Inl e \<Rightarrow> Inl e
      | Inr (s1, train_loss) \<Rightarrow>
          if dataset_len train_loader = 0 then Inl ZeroDivisionError
          else let train_loss = train_loss / real (dataset_len train_loader);
                   s2 = s1\<lparr>train_losses := train_losses s1 @ [train_loss]\<rparr>
            in (case val_batches lb crit (pstore s2 model) (batches val_loader epoch)
                       (0, [], mse_values s2) of
                  Inl e \<Rightarrow> Inl e
                | Inr (val_loss, r2_values, mse_vals) \<Rightarrow>
                    if dataset_len val_loader = 0 then Inl ZeroDivisionError
                    else let val_loss = val_loss / real (dataset_len val_loader);
                             s3 = s2\<lparr>val_losses := val_losses s2 @ [val_loss],
                                     mse_values := mse_vals\<rparr>;
                             s4 = (case sched of
                                     Some sch \<Rightarrow> s3\<lparr>optimizer := sch val_loss (optimizer s3)\<rparr>
                                   | None \<Rightarrow> s3);
                             current_lr = get_lr lb (optimizer s4)
                      in (case print_metrics epoch num_epochs train_loss val_loss current_lr
                                 r2_values s4 of
                            Inl e \<Rightarrow> Inl e
                          | Inr s5 \<Rightarrow> early_stopping model patience epoch val_loss s5)))"

subsection \<open>The loop\<close>

text \<open>The loop over \<open>range(num_epochs)\<close>; the flag says whether it ended by \<open>break\<close>.\<close>

fun epochs_loop ::
  "('p, 'o) lib \<Rightarrow> nat \<Rightarrow> loader \<Rightarrow> loader \<Rightarrow> criterion \<Rightarrow> nat \<Rightarrow> int \<Rightarrow> 'o scheduler option
     \<Rightarrow> nat list \<Rightarrow> ('p, 'o) tstate \<Rightarrow> error + (bool \<times> ('p, 'o) tstate)" where
  "epochs_loop lb model train_loader val_loader crit num_epochs patience sched [] s =
     Inr (False, s)"
| "epochs_loop lb model train_loader val_loader crit num_epochs patience sched (epoch # rest) s =
     (case epoch_body lb model train_loader val_loader crit num_epochs patience sched epoch s of
        Inl e \<Rightarrow> Inl e
      | Inr (brk, s') \<Rightarrow>
          if brk then Inr (True, s')
          else epochs_loop lb model train_loader val_loader crit num_epochs patience sched rest s')"

text \<open>
  \<open>train_regression_model\<close> returns the model (its address, unchanged) and the two loss
  lists; the final state holds them, with the parameter store and what was printed.
\<close>

definition train_regression_model ::
  "('p, 'o) lib \<Rightarrow> 'p pstore \<Rightarrow> nat \<Rightarrow> loader \<Rightarrow> loader \<Rightarrow> criterion \<Rightarrow> 'o \<Rightarrow> nat \<Rightarrow> int
     \<Rightarrow> 'o scheduler option \<Rightarrow> error + ('p, 'o) tstate" where
  "train_regression_model lb ps model train_loader val_loader crit opt num_epochs patience sched =
     (case epochs_loop lb model train_loader val_loader crit num_epochs patience sched
             [0..<num_epochs] (init_tstate ps opt) of
        Inl e \<Rightarrow> Inl e
      | Inr (brk, s) \<Rightarrow> Inr s)"

subsection \<open>The quantities the loop is compared with\<close>

text \<open>
  The loss of one batch for parameters \<open>p\<close>, as the training loop computes it: forward
  pass, shape assertion, criterion, \<open>item()\<close>.
\<close>

definition batch_loss :: "('p, 'o) lib \<Rightarrow> criterion \<Rightarrow> 'p \<Rightarrow> batch \<Rightarrow> error + real" where
  "batch_loss lb crit p b =
     (case forward lb p (fst b) of
        Inl e \<Rightarrow> Inl e
      | Inr outs \<Rightarrow>
          if shape outs \<noteq> shape (snd b) then Inl AssertionError
          else (case crit outs (snd b) of Inl e \<Rightarrow> Inl e | Inr loss \<Rightarrow> item loss))"

text \<open>The optimizer state and the parameters after the updates for a list of batches.\<close>

fun after_batches :: "('p, 'o) lib \<Rightarrow> batch list \<Rightarrow> 'o \<times> 'p \<Rightarrow> 'o \<times> 'p" where
  "after_batches lb [] op = op"
| "after_batches lb (b # rest) op =
     after_batches lb rest (backward_step lb (fst op) (snd op) (fst b) (snd b))"

definition params_before :: "('p, 'o) lib \<Rightarrow> batch list \<Rightarrow> 'o \<times> 'p \<Rightarrow> nat \<Rightarrow> 'p" where
  \<comment> \<open>the parameters with which batch \<open>k\<close> of the epoch is processed\<close>
  "params_before lb bs op k = snd (after_batches lb (take k bs) op)"

definition weighted_loss_sum ::
  "('p, 'o) lib \<Rightarrow> criterion \<Rightarrow> batch list \<Rightarrow> 'o \<times> 'p \<Rightarrow> real" where
  \<comment> \<open>the sum over the batches of (batch loss times batch size)\<close>
  "weighted_loss_sum lb crit bs op =
     (\<Sum>k\<leftarrow>[0..<length bs].
        (case batch_loss lb crit (params_before lb bs op k) (bs ! k) of
           Inr l \<Rightarrow> l | Inl e \<Rightarrow> 0) * real (length (rws (fst (bs ! k)))))"

section \<open>The grid-search driver (manual_optimization.py)\<close>

text \<open>
  What the script builds for each combination comes from the libraries: the randomly
  initialised parametric model, the two shuffling loaders, the smooth-L1 criterion and
  the Adam optimizer. \<open>k\<close> counts the combinations tried so far, since the random state
  moves on.
\<close>

record ('p, 'o) builders =
  new_model :: "nat \<Rightarrow> nat \<Rightarrow> nat \<Rightarrow> 'p"
  train_loader_of :: "nat \<Rightarrow> nat \<Rightarrow> loader"
  val_loader_of :: "nat \<Rightarrow> nat \<Rightarrow> loader"
  smooth_l1 :: criterion
  adam :: "real \<Rightarrow> real \<Rightarrow> 'o"

record hyper =
  hp_lr :: real
  hp_batch_size :: nat
  hp_weight_decay :: real
  hp_h1 :: nat
  hp_layers :: nat

record 'p gstate =
  g_pstore :: "'p pstore"
  g_fresh :: nat  \<comment> \<open>the address of the next model object\<close>
  g_best_val_loss :: "real option"  \<comment> \<open>\<open>None\<close> is \<open>float('inf')\<close>\<close>
  g_best_params :: "hyper option"
  g_best_model :: "nat option"
  g_trained_model :: "nat option"  \<comment> \<open>\<open>None\<close>: the name is not bound yet\<close>

definition init_gstate :: "'p pstore \<Rightarrow> nat \<Rightarrow> 'p gstate" where
  "init_gstate ps n =
     \<lparr>g_pstore = ps, g_fresh = n, g_best_val_loss = None, g_best_params = None,
      g_best_model = None, g_trained_model = None\<rparr>"

definition py_min :: "real list \<Rightarrow> error + real" where
  "py_min xs = (case xs of [] \<Rightarrow> Inl ValueError | x # rest \<Rightarrow> Inr (fold min rest x))"

text \<open>The body of the innermost loop, for one combination.\<close>

definition grid_body ::
  "('p, 'o) lib \<Rightarrow> ('p, 'o) builders \<Rightarrow> nat \<times> nat \<times> real \<times> nat \<times> real \<Rightarrow> 'p gstate
     \<Rightarrow> error + 'p gstate" where
  "grid_body lb su combo g =
     (case combo of (h1, num_layers, lr, batch_size, weight_decay) \<Rightarrow>
        let k = g_fresh g;
            train_loader = train_loader_of su k batch_size;
            val_loader = val_loader_of su k batch_size;
            basic_model = k;
            ps = (g_pstore g)(basic_model := new_model su k h1 num_layers);
            optimizer = adam su lr weight_decay;
            epochs = 600
        in (case train_regression_model lb ps basic_model train_loader val_loader
                   (smooth_l1 su) optimizer epochs 5 None of
              Inl e \<Rightarrow> Inl e
            | Inr s \<Rightarrow>
               (case py_min (val_losses s) of
                  Inl e \<Rightarrow> Inl e
                | Inr min_val_loss \<Rightarrow>
                    let trained_model = basic_model;
                        g1 = g\<lparr>g_pstore := pstore s, g_fresh := Suc k,
                               g_trained_model := Some trained_model\<rparr>
                    in if (case g_best_val_loss g1 of None \<Rightarrow> True | Some b \<Rightarrow> min_val_loss < b)
                       then Inr (g1\<lparr>g_best_val_loss := Some min_val_loss,
                                   g_best_params := Some \<lparr>hp_lr = lr, hp_batch_size = batch_size,
                                      hp_weight_decay = weight_decay, hp_h1 = h1,
                                      hp_layers = num_layers\<rparr>,
                                   g_best_model := Some trained_model\<rparr>)
                       else Inr g1)))"

fun grid_loop ::
  "('p, 'o) lib \<Rightarrow> ('p, 'o) builders \<Rightarrow> (nat \<times> nat \<times> real \<times> nat \<times> real) list \<Rightarrow> 'p gstate
     \<Rightarrow> error + 'p gstate" where
  "grid_loop lb su [] g = Inr g"
| "grid_loop lb su (combo # rest) g =
     (case grid_body lb su combo g of Inl e \<Rightarrow> Inl e | Inr g' \<Rightarrow> grid_loop lb su rest g')"

definition combinations ::
  "nat list \<Rightarrow> nat list \<Rightarrow> real list \<Rightarrow> nat list \<Rightarrow> real list
     \<Rightarrow> (nat \<times> nat \<times> real \<times> nat \<times> real) list" where
  \<comment> \<open>the five nested \<open>for\<close> loops, in their order\<close>
  "combinations h1_values num_layers_values learning_rates batch_sizes weight_decays =
     [(h1, num_layers, lr, batch_size, weight_decay).
        h1 \<leftarrow> h1_values, num_layers \<leftarrow> num_layers_values, lr \<leftarrow> learning_rates,
        batch_size \<leftarrow> batch_sizes, weight_decay \<leftarrow> weight_decays]"

text \<open>
  The script: the sweep, then \<open>torch.save(trained_model.state_dict(), ...)\<close>. The result
  is the parameter values written to the file, with the final state of the sweep.
\<close>

definition grid_search ::
  "('p, 'o) lib \<Rightarrow> ('p, 'o) builders \<Rightarrow> 'p pstore \<Rightarrow> nat list \<Rightarrow> nat list \<Rightarrow> real list
     \<Rightarrow> nat list \<Rightarrow> real list \<Rightarrow> error + ('p \<times> 'p gstate)" where
  "grid_search lb su ps h1_values num_layers_values learning_rates batch_sizes weight_decays =
     (case grid_loop lb su
             (combinations h1_values num_layers_values learning_rates batch_sizes weight_decays)
             (init_gstate ps 0) of
        Inl e \<Rightarrow> Inl e
      | Inr g \<Rightarrow>
         (case g_trained_model g of
            None \<Rightarrow> Inl NameError
          | Some trained_model \<Rightarrow> Inr (g_pstore g (state_dict trained_model), g)))"

section \<open>Concrete inputs\<close>

text \<open>
  The metric functions of the metrics library, after its documentation: both refuse
  empty or unequal-length inputs; the coefficient of determination is not defined for
  fewer than two samples (NaN), and for constant targets it is 1 for a perfect
  prediction and 0 otherwise.
\<close>

definition sklearn_mean_squared_error :: "real list \<Rightarrow> real list \<Rightarrow> error + real" where
  "sklearn_mean_squared_error y_true y_pred =
     (if y_true = [] \<or> length y_true \<noteq> length y_pred then Inl ValueError
      else Inr (sum_list (map2 (\<lambda>t p. (t - p)\<^sup>2) y_true y_pred) / real (length y_true)))"

definition sklearn_r2_score :: "real list \<Rightarrow> real list \<Rightarrow> error + real" where
  "sklearn_r2_score y_true y_pred =
     (if y_true = [] \<or> length y_true \<noteq> length y_pred then Inl ValueError
      else if length y_true < 2 then Inl NonFinite
      else let numerator = sum_list (map2 (\<lambda>t p. (t - p)\<^sup>2) y_true y_pred);
               avg = sum_list y_true / real (length y_true);
               denominator = sum_list (map (\<lambda>t. (t - avg)\<^sup>2) y_true)
        in if denominator \<noteq> 0 then Inr (1 - numerator / denominator)
           else if numerator \<noteq> 0 then Inr 0 else Inr 1)"

text \<open>
  A model with one weight \<open>w\<close> and no bias, \<open>y = w * x\<close>, trained by plain gradient
  descent on the Huber loss with threshold 1 (the smooth-L1 loss): the optimizer's state
  is its learning rate, and the gradient of the batch loss in \<open>w\<close> is the mean of
  \<open>clip (w * x - t) * x\<close>.
\<close>

definition huber_gradient :: "real \<Rightarrow> tensor \<Rightarrow> tensor \<Rightarrow> real" where
  "huber_gradient w inputs targets =
     sum_list (map2 (\<lambda>x t. max (- 1) (min 1 (w * x - t)) * x) (elems inputs) (elems targets))
       / real (length (elems inputs))"

definition one_weight :: "(real, real) lib" where
  "one_weight =
     \<lparr>forward = (\<lambda>w x. Inr (tmap (\<lambda>v. w * v) x)),
      backward_step = (\<lambda>lr w inputs targets. (lr, w - lr * huber_gradient w inputs targets)),
      get_lr = (\<lambda>lr. lr),
      r2_score = sklearn_r2_score,
      mean_squared_error = sklearn_mean_squared_error\<rparr>"

definition col_tensor :: "real list \<Rightarrow> tensor" where
  \<comment> \<open>a batch with one column\<close>
  "col_tensor xs = \<lparr>ncols = 1, rws = map (\<lambda>x. [x]) xs\<rparr>"

definition fixed_loader :: "batch list \<Rightarrow> nat \<Rightarrow> loader" where
  \<comment> \<open>a loader without shuffling\<close>
  "fixed_loader bs n = \<lparr>batches = (\<lambda>e. bs), dataset_len = n\<rparr>"

definition far_train :: loader where
  "far_train = fixed_loader [(col_tensor [1], col_tensor [10])] 1"

definition near_val :: loader where
  "near_val = fixed_loader [(col_tensor [1, 2], col_tensor [0, 1])] 2"

text \<open>A store with one two-column array, and scaling metadata for two of three names.\<close>

definition two_by_two :: store where
  "two_by_two = \<lparr>cells = (\<lambda>a. \<lparr>ncols = 2, rws = [[1, 2], [3, 4]]\<rparr>), fresh = 1\<rparr>"

definition three_names :: "string list" where
  "three_names = [''p'', ''q'', ''r'']"

definition two_entries :: scaling_info where
  "two_entries =
     [''p'' \<mapsto> [''mean'' \<mapsto> 10, ''std'' \<mapsto> 2], ''q'' \<mapsto> [''mean'' \<mapsto> 0, ''std'' \<mapsto> 1]]"

section \<open>Loss functions: proofs\<close>

lemma concat_map2_rows:
  "length xs = length ys \<Longrightarrow> list_all (\<lambda>r. length r = n) xs \<Longrightarrow>
   list_all (\<lambda>r. length r = n) ys \<Longrightarrow>
   concat (map2 (map2 f) xs ys) = map2 f (concat xs) (concat ys)"
proof (induction xs arbitrary: ys)
  case Nil
  then show ?case by simp
next
  case (Cons x xs)
  then obtain y ys' where ys: "ys = y # ys'" by (cases ys) auto
  with Cons show ?case by simp
qed

lemma elems_zip_with:
  "wf_tensor a \<Longrightarrow> wf_tensor b \<Longrightarrow> shape a = shape b \<Longrightarrow>
   elems (zip_with f a b) = map2 f (elems a) (elems b)"
  unfolding wf_tensor_def shape_def elems_def zip_with_def
  by (simp add: concat_map2_rows)

text \<open>
  C6. \<open>calculate_weighted_mse.forward\<close> raises exactly when the two shapes differ. When
  they agree, it returns the squared differences of the elements, reduced as the mode
  says: their mean for 'mean' (NaN when there is no element), their sum for 'sum', and
  the unreduced tensor for any other mode.
\<close>

theorem weighted_mse_forward_spec:
  "((\<exists>e. calculate_weighted_mse_forward reduction input target = Inl e)
      \<longleftrightarrow> shape input \<noteq> shape target) \<and>
   (wf_tensor input \<and> wf_tensor target \<and> shape input = shape target \<longrightarrow>
      (let sq = map2 (\<lambda>x y. (x - y)\<^sup>2) (elems input) (elems target) in
       calculate_weighted_mse_forward reduction input target =
         (if reduction = ''mean'' then
            Inr (if sq = [] then NaN else Scalar (sum_list sq / real (length sq)))
          else if reduction = ''sum'' then Inr (Scalar (sum_list sq))
          else Inr (Elementwise (zip_with (\<lambda>x y. (x - y)\<^sup>2) input target)))))"
  by (auto simp: calculate_weighted_mse_forward_def Let_def squared_error_def
      tensor_mean_def tensor_sum_def elems_zip_with)

theorem weighted_mse_forward_spec_witness:
  "wf_tensor \<lparr>ncols = 2, rws = [[1, 2]]\<rparr> \<and> wf_tensor \<lparr>ncols = 2, rws = [[0, 4]]\<rparr> \<and>
   shape \<lparr>ncols = 2, rws = [[1, 2]]\<rparr> = shape \<lparr>ncols = 2, rws = [[0, 4]]\<rparr> \<and>
   calculate_weighted_mse_forward ''mean'' \<lparr>ncols = 2, rws = [[1, 2]]\<rparr>
     \<lparr>ncols = 2, rws = [[0, 4]]\<rparr> = Inr (Scalar (5 / 2))"
proof -
  have h: "wf_tensor \<lparr>ncols = 2, rws = [[1, 2]]\<rparr> \<and> wf_tensor \<lparr>ncols = 2, rws = [[0, 4]]\<rparr> \<and>
      shape \<lparr>ncols = 2, rws = [[1, 2]]\<rparr> = shape \<lparr>ncols = 2, rws = [[0, 4]]\<rparr>"
    by (simp add: wf_tensor_def shape_def)
  note th = weighted_mse_forward_spec[of "''mean''" "\<lparr>ncols = 2, rws = [[1, 2]]\<rparr>"
      "\<lparr>ncols = 2, rws = [[0, 4]]\<rparr>", THEN conjunct2, rule_format, OF h]
  show ?thesis using h th by (simp add: elems_def)
qed

lemma huber_where_alt:
  "huber_where delta err = huber_linear_branch delta err + 0.5 * (min 0 (err - delta))\<^sup>2"
  unfolding huber_where_def huber_squared_branch_def huber_linear_branch_def min_def
  by (simp add: power2_eq_square field_simps)

lemma min_sq_quot: "(min 0 h)\<^sup>2 / h = min 0 (h::real)"
  by (simp add: min_def power2_eq_square)

lemma deriv_min_sq: "((\<lambda>x::real. (min 0 (x - delta))\<^sup>2) has_real_derivative 0) (at delta)"
proof -
  have "((\<lambda>h::real. min 0 h) \<longlongrightarrow> min 0 0) (at 0)"
    by (intro tendsto_min tendsto_const tendsto_ident_at)
  then show ?thesis
    by (simp add: DERIV_def min_sq_quot)
qed

lemma deriv_huber_where: "(huber_where delta has_real_derivative delta) (at delta)"
proof -
  have "((\<lambda>err. huber_linear_branch delta err + 0.5 * (min 0 (err - delta))\<^sup>2)
           has_real_derivative delta + 0.5 * 0) (at delta)"
    unfolding huber_linear_branch_def
    by (intro DERIV_add DERIV_cmult deriv_min_sq) (auto intro!: derivative_eq_intros)
  then show ?thesis
    by (simp add: huber_where_alt[abs_def])
qed

text \<open>
  C7. At \<open>error = delta\<close> the squared branch and the linear branch of the Huber loss have
  the same value and the same derivative, \<open>delta\<close>, for every threshold; so the
  elementwise loss that switches between them is differentiable there, with that slope,
  and continuous.
\<close>

theorem huber_branches_agree:
  "huber_squared_branch delta = huber_linear_branch delta delta \<and>
   (huber_squared_branch has_real_derivative delta) (at delta) \<and>
   (huber_linear_branch delta has_real_derivative delta) (at delta) \<and>
   (huber_where delta has_real_derivative delta) (at delta) \<and>
   isCont (huber_where delta) delta"
proof (intro conjI)
  show "huber_squared_branch delta = huber_linear_branch delta delta"
    by (simp add: huber_squared_branch_def huber_linear_branch_def power2_eq_square)
  show "(huber_squared_branch has_real_derivative delta) (at delta)"
    unfolding huber_squared_branch_def by (auto intro!: derivative_eq_intros)
  show "(huber_linear_branch delta has_real_derivative delta) (at delta)"
    unfolding huber_linear_branch_def by (auto intro!: derivative_eq_intros)
  show "(huber_where delta has_real_derivative delta) (at delta)"
    by (rule deriv_huber_where)
  show "isCont (huber_where delta) delta"
    using deriv_huber_where DERIV_isCont by blast
qed

section \<open>The unscale helper: proofs\<close>

lemma column_of_set_column_other:
  "length vs = length (rws arr) \<Longrightarrow> j \<noteq> i \<Longrightarrow>
   column_of (set_column arr i vs) j = column_of arr j"
  unfolding column_of_def set_column_def
  by (auto intro!: nth_equalityI)

lemma column_of_set_column_same:
  "length vs = length (rws arr) \<Longrightarrow> list_all (\<lambda>r. i < length r) (rws arr) \<Longrightarrow>
   column_of (set_column arr i vs) i = vs"
  unfolding column_of_def set_column_def
  by (auto intro!: nth_equalityI simp: list_all_length)

lemma set_column_shape:
  "length vs = length (rws arr) \<Longrightarrow>
   ncols (set_column arr i vs) = ncols arr \<and>
   length (rws (set_column arr i vs)) = length (rws arr) \<and>
   (list_all (\<lambda>r. length r = n) (rws arr) \<longrightarrow>
      list_all (\<lambda>r. length r = n) (rws (set_column arr i vs)))"
  unfolding set_column_def
  by (auto simp: list_all_length)

lemma unscale_loop_frame:
  "unscale_loop info data out n i names st = (exc, st', msgs) \<Longrightarrow> a \<noteq> out \<Longrightarrow>
   cells st' a = cells st a"
proof (induction names arbitrary: i st)
  case Nil
  then show ?case by simp
next
  case (Cons column rest)
  show ?case
  proof (cases "i \<ge> n")
    case True
    with Cons.prems show ?thesis by simp
  next
    case False
    with Cons.prems Cons.IH show ?thesis
      by (auto simp: write_column_def split: sum.splits)
  qed
qed

lemma unscale_loop_fresh:
  "unscale_loop info data out n i names st = (exc, st', msgs) \<Longrightarrow> fresh st' = fresh st"
proof (induction names arbitrary: i st)
  case Nil
  then show ?case by simp
next
  case (Cons column rest)
  show ?case
  proof (cases "i \<ge> n")
    case True
    with Cons.prems show ?thesis by simp
  next
    case False
    with Cons.prems Cons.IH show ?thesis
      by (fastforce simp: write_column_def split: sum.splits)
  qed
qed

lemma unscale_loop_untouched:
  "unscale_loop info data out n i names st = (exc, st', msgs) \<Longrightarrow> data \<noteq> out \<Longrightarrow>
   length (rws (cells st out)) = length (rws (cells st data)) \<Longrightarrow>
   ncols (cells st' out) = ncols (cells st out) \<and>
   length (rws (cells st' out)) = length (rws (cells st out)) \<and>
   (\<forall>j. j < i \<or> i + length names \<le> j \<longrightarrow>
      column_of (cells st' out) j = column_of (cells st out) j)"
proof (induction names arbitrary: i st)
  case Nil
  then show ?case by simp
next
  case (Cons column rest)
  show ?case
  proof (cases "i \<ge> n")
    case True
    with Cons.prems show ?thesis by simp
  next
    case False
    show ?thesis
    proof (cases "metadata info column")
      case None
      with False Cons.prems show ?thesis
        by (auto simp: metadata_def lookup_def split: option.splits)
    next
      case (Some ms)
      obtain mean std where ms: "ms = (mean, std)" by (cases ms)
      define vs where "vs = map (\<lambda>x. x * std + mean) (column_of (cells st data) i)"
      define st1 where "st1 = write_column st out i vs"
      have len: "length vs = length (rws (cells st out))"
        using Cons.prems(3) by (simp add: vs_def column_of_def)
      have run: "unscale_loop info data out n (Suc i) rest st1 = (exc, st', msgs)"
        using Cons.prems(1) False Some ms
        by (auto simp: metadata_def lookup_def st1_def vs_def split: option.splits)
      have st1_out: "cells st1 out = set_column (cells st out) i vs"
        and st1_data: "cells st1 data = cells st data"
        using Cons.prems(2) by (simp_all add: st1_def write_column_def)
      have "length (rws (cells st1 out)) = length (rws (cells st1 data))"
        using set_column_shape[OF len] Cons.prems(3) by (simp add: st1_out st1_data)
      from Cons.IH[OF run Cons.prems(2) this]
      have ih: "ncols (cells st' out) = ncols (cells st1 out)"
        "length (rws (cells st' out)) = length (rws (cells st1 out))"
        "\<And>j. j < Suc i \<or> Suc i + length rest \<le> j \<Longrightarrow>
           column_of (cells st' out) j = column_of (cells st1 out) j"
        by auto
      show ?thesis
        using ih set_column_shape[OF len, of i] column_of_set_column_other[OF len]
        by (auto simp: st1_out)
    qed
  qed
qed


lemma unscale_loop_written:
  "data \<noteq> out \<Longrightarrow>
   length (rws (cells st out)) = length (rws (cells st data)) \<Longrightarrow>
   list_all (\<lambda>r. length r = n) (rws (cells st out)) \<Longrightarrow>
   \<forall>k < min (length names) (n - i). metadata info (names ! k) \<noteq> None \<Longrightarrow>
   i \<le> n \<Longrightarrow>
   \<exists>st'. unscale_loop info data out n i names st =
           (None, st', if n < i + length names then [OutOfBoundsWarning n n] else []) \<and>
         (\<forall>k < min (length names) (n - i). \<forall>mean std.
            metadata info (names ! k) = Some (mean, std) \<longrightarrow>
            column_of (cells st' out) (i + k) =
              map (\<lambda>x. x * std + mean) (column_of (cells st data) (i + k)))"
proof (induction names arbitrary: i st)
  case Nil
  then show ?case by simp
next
  case (Cons column rest)
  show ?case
  proof (cases "i \<ge> n")
    case True
    with Cons.prems(5) show ?thesis by simp
  next
    case False
    then have "metadata info column \<noteq> None"
      using Cons.prems(4) by (auto dest: spec[where x = 0])
    then obtain mean std where ms: "metadata info column = Some (mean, std)" by auto
    define vs where "vs = map (\<lambda>x. x * std + mean) (column_of (cells st data) i)"
    define st1 where "st1 = write_column st out i vs"
    have len: "length vs = length (rws (cells st out))"
      using Cons.prems(2) by (simp add: vs_def column_of_def)
    have step: "unscale_loop info data out n i (column # rest) st =
                unscale_loop info data out n (Suc i) rest st1"
      using False ms
      by (auto simp: metadata_def lookup_def st1_def vs_def split: option.splits)
    have st1_out: "cells st1 out = set_column (cells st out) i vs"
      and st1_data: "cells st1 data = cells st data"
      using Cons.prems(1) by (simp_all add: st1_def write_column_def)
    have p2: "length (rws (cells st1 out)) = length (rws (cells st1 data))"
      using set_column_shape[OF len] Cons.prems(2) by (simp add: st1_out st1_data)
    have p3: "list_all (\<lambda>r. length r = n) (rws (cells st1 out))"
      using set_column_shape[OF len, of i n] Cons.prems(3) by (simp add: st1_out)
    have p4: "\<forall>k < min (length rest) (n - Suc i). metadata info (rest ! k) \<noteq> None"
    proof (intro allI impI)
      fix k assume "k < min (length rest) (n - Suc i)"
      then have "Suc k < min (length (column # rest)) (n - i)" by auto
      from Cons.prems(4)[rule_format, OF this] show "metadata info (rest ! k) \<noteq> None" by simp
    qed
    have p5: "Suc i \<le> n" using False by simp
    from Cons.IH[OF Cons.prems(1) p2 p3 p4 p5]
    obtain st' where run: "unscale_loop info data out n (Suc i) rest st1 =
        (None, st', if n < Suc i + length rest then [OutOfBoundsWarning n n] else [])"
      and cols: "\<And>k mean std. k < min (length rest) (n - Suc i) \<Longrightarrow>
            metadata info (rest ! k) = Some (mean, std) \<Longrightarrow>
            column_of (cells st' out) (Suc i + k) =
              map (\<lambda>x. x * std + mean) (column_of (cells st1 data) (Suc i + k))"
      by blast
    have untouched: "column_of (cells st' out) i = column_of (cells st1 out) i"
      using unscale_loop_untouched[OF run Cons.prems(1) p2] by simp
    have in_range: "list_all (\<lambda>r. i < length r) (rws (cells st out))"
      using Cons.prems(3) False by (auto simp: list_all_length)
    have col_i: "column_of (cells st' out) i = vs"
      using untouched column_of_set_column_same[OF len in_range] by (simp add: st1_out)
    show ?thesis
    proof (intro exI[of _ st'] conjI allI impI)
      show "unscale_loop info data out n i (column # rest) st =
            (None, st', if n < i + length (column # rest) then [OutOfBoundsWarning n n] else [])"
        using step run by simp
    next
      fix k mean' std'
      assume k: "k < min (length (column # rest)) (n - i)"
        and m: "metadata info ((column # rest) ! k) = Some (mean', std')"
      show "column_of (cells st' out) (i + k) =
              map (\<lambda>x. x * std' + mean') (column_of (cells st data) (i + k))"
      proof (cases k)
        case 0
        with m ms col_i show ?thesis by (simp add: vs_def)
      next
        case (Suc k')
        with k have "k' < min (length rest) (n - Suc i)" by auto
        with Suc m cols[of k' mean' std'] show ?thesis by (simp add: st1_data)
      qed
    qed
  qed
qed

text \<open>
  C8. When the array is well formed and each name that is reached has its mean and std
  in the metadata, \<open>unscale\<close> returns normally; column \<open>i\<close> of the result is column \<open>i\<close>
  of the data times that name's std plus its mean, for the first
  \<open>min (number of names) (number of columns)\<close> names; and when there are more names than
  columns it prints one warning and looks no further name up.
\<close>

theorem unscale_reconstructs:
  assumes wf: "wf_tensor (cells st data)"
    and valid: "data < fresh st"
    and meta: "\<forall>i < min (length column_names) (ncols (cells st data)).
                 metadata scaling_info (column_names ! i) \<noteq> None"
  shows "\<exists>unscaled_data st'.
     unscale st data column_names scaling_info =
       (Inr unscaled_data, st',
        if ncols (cells st data) < length column_names
        then [OutOfBoundsWarning (ncols (cells st data)) (ncols (cells st data))] else []) \<and>
     (\<forall>i < min (length column_names) (ncols (cells st data)). \<forall>mean std.
        metadata scaling_info (column_names ! i) = Some (mean, std) \<longrightarrow>
        column_of (cells st' unscaled_data) i =
          map (\<lambda>x. x * std + mean) (column_of (cells st data) i))"
proof -
  define st1 where "st1 = snd (copy st data)"
  define out where "out = fresh st"
  have cp: "copy st data = (out, st1)" by (simp add: st1_def out_def copy_def)
  have ne: "data \<noteq> out" using valid by (simp add: out_def)
  have c_out: "cells st1 out = cells st data" and c_data: "cells st1 data = cells st data"
    using ne by (simp_all add: st1_def out_def copy_def)
  have p2: "length (rws (cells st1 out)) = length (rws (cells st1 data))"
    by (simp add: c_out c_data)
  have p3: "list_all (\<lambda>r. length r = ncols (cells st data)) (rws (cells st1 out))"
    using wf by (simp add: c_out wf_tensor_def)
  from unscale_loop_written[OF ne p2 p3, of column_names 0 scaling_info] meta
  obtain st' where run: "unscale_loop scaling_info data out (ncols (cells st data)) 0 column_names st1 =
      (None, st', if ncols (cells st data) < length column_names
         then [OutOfBoundsWarning (ncols (cells st data)) (ncols (cells st data))] else [])"
    and cols: "\<forall>k < min (length column_names) (ncols (cells st data)). \<forall>mean std.
            metadata scaling_info (column_names ! k) = Some (mean, std) \<longrightarrow>
            column_of (cells st' out) k =
              map (\<lambda>x. x * std + mean) (column_of (cells st data) k)"
    by (auto simp: c_data)
  show ?thesis
    by (intro exI[of _ out] exI[of _ st'] conjI) (simp_all add: unscale_def cp run cols)
qed

theorem unscale_reconstructs_witness:
  "\<exists>unscaled_data st'.
     unscale two_by_two 0 three_names two_entries =
       (Inr unscaled_data, st', [OutOfBoundsWarning 2 2]) \<and>
     column_of (cells st' unscaled_data) 0 = [12, 16] \<and>
     column_of (cells st' unscaled_data) 1 = [2, 4]"
proof -
  have wf: "wf_tensor (cells two_by_two 0)" and valid: "0 < fresh two_by_two"
    and nc: "ncols (cells two_by_two 0) = 2"
    by (simp_all add: two_by_two_def wf_tensor_def)
  have m0: "metadata two_entries (three_names ! 0) = Some (10, 2)"
    and m1: "metadata two_entries (three_names ! 1) = Some (0, 1)"
    by (simp_all add: metadata_def two_entries_def three_names_def)
  have meta: "\<forall>i < min (length three_names) (ncols (cells two_by_two 0)).
                 metadata two_entries (three_names ! i) \<noteq> None"
    using m0 m1 by (auto simp: nc three_names_def less_Suc_eq numeral_2_eq_2)
  from unscale_reconstructs[OF wf valid meta]
  obtain unscaled_data st' where
    run: "unscale two_by_two 0 three_names two_entries =
            (Inr unscaled_data, st', [OutOfBoundsWarning 2 2])"
    and cols: "\<And>i mean std. i < 2 \<Longrightarrow> metadata two_entries (three_names ! i) = Some (mean, std)
         \<Longrightarrow> column_of (cells st' unscaled_data) i =
             map (\<lambda>x. x * std + mean) (column_of (cells two_by_two 0) i)"
    by (auto simp: nc three_names_def)
  have "column_of (cells st' unscaled_data) 0 = [12, 16]"
    using cols[OF _ m0] by (simp add: two_by_two_def column_of_def)
  moreover have "column_of (cells st' unscaled_data) 1 = [2, 4]"
    using cols[OF _ m1] by (simp add: two_by_two_def column_of_def)
  ultimately show ?thesis using run by blast
qed

text \<open>
  C10. \<open>unscale\<close> leaves every array that existed before the call as it was, the input
  among them, whether it returns or raises. What it returns is a new array of the shape
  of the input, in which every column whose index is not below the number of requested
  names holds the input's values.
\<close>

theorem unscale_keeps_input:
  assumes valid: "data < fresh st"
    and run: "unscale st data column_names scaling_info = (res, st', warnings)"
  shows "(\<forall>a < fresh st. cells st' a = cells st a) \<and>
         (\<forall>unscaled_data. res = Inr unscaled_data \<longrightarrow>
            unscaled_data = fresh st \<and>
            shape (cells st' unscaled_data) = shape (cells st data) \<and>
            (\<forall>j \<ge> length column_names.
               column_of (cells st' unscaled_data) j = column_of (cells st data) j))"
proof -
  define st1 where "st1 = snd (copy st data)"
  define out where "out = fresh st"
  have cp: "copy st data = (out, st1)" by (simp add: st1_def out_def copy_def)
  have ne: "data \<noteq> out" using valid by (simp add: out_def)
  have c_out: "cells st1 out = cells st data" and c_data: "cells st1 data = cells st data"
    using ne by (simp_all add: st1_def out_def copy_def)
  have c_old: "\<And>a. a < fresh st \<Longrightarrow> cells st1 a = cells st a"
    by (simp add: st1_def copy_def)
  obtain exc msgs where loop:
    "unscale_loop scaling_info data out (ncols (cells st data)) 0 column_names st1 = (exc, st', msgs)"
    and res: "res = (case exc of Some e \<Rightarrow> Inl e | None \<Rightarrow> Inr out)"
    using run by (auto simp: unscale_def cp split: prod.splits)
  have frame: "\<forall>a < fresh st. cells st' a = cells st a"
    using unscale_loop_frame[OF loop] c_old by (auto simp: out_def)
  have p2: "length (rws (cells st1 out)) = length (rws (cells st1 data))"
    by (simp add: c_out c_data)
  from unscale_loop_untouched[OF loop ne p2]
  have "shape (cells st' out) = shape (cells st data)"
    and "\<forall>j \<ge> length column_names. column_of (cells st' out) j = column_of (cells st data) j"
    by (simp_all add: shape_def c_out)
  with frame res show ?thesis
    by (auto simp: out_def split: option.splits)
qed

theorem unscale_keeps_input_witness:
  "0 < fresh two_by_two \<and>
   cells (fst (snd (unscale two_by_two 0 three_names two_entries))) 0 = cells two_by_two 0"
proof -
  have valid: "0 < fresh two_by_two" by (simp add: two_by_two_def)
  have run: "unscale two_by_two 0 three_names two_entries =
      (fst (unscale two_by_two 0 three_names two_entries),
       fst (snd (unscale two_by_two 0 three_names two_entries)),
       snd (snd (unscale two_by_two 0 three_names two_entries)))"
    by simp
  from unscale_keeps_input[OF valid run] valid show ?thesis by blast
qed

end
